theory Spec2Isabelle
  imports Main
begin

section \<open>Strings of code points\<close>

text \<open>
  A Python 3 \<^verbatim>\<open>str\<close> is a sequence of Unicode code points, and its length counts code
  points. A code point is modelled by its number, a string by the list of its code points.
  \<open>lit\<close> turns an ASCII literal into such a list.
\<close>

type_synonym codepoint = nat
type_synonym str = "codepoint list"

definition cp :: "char \<Rightarrow> codepoint" where
  "cp c = of_char c"

definition lit :: "string \<Rightarrow> str" where
  "lit s = map cp s"

text \<open>
  \<^verbatim>\<open>str.isspace\<close> of Python 3 for one code point: the characters that \<^verbatim>\<open>str.strip()\<close>
  without argument removes (U+0009..U+000D, U+001C..U+0020, U+0085, U+00A0, U+1680,
  U+2000..U+200A, U+2028, U+2029, U+202F, U+205F, U+3000).
\<close>

definition isspace :: "codepoint \<Rightarrow> bool" where
  "isspace c \<longleftrightarrow> c \<in> set [9, 10, 11, 12, 13, 28, 29, 30, 31, 32, 133, 160, 5760,
     8192, 8193, 8194, 8195, 8196, 8197, 8198, 8199, 8200, 8201, 8202,
     8232, 8233, 8239, 8287, 12288]"

text \<open>\<^verbatim>\<open>s.strip()\<close>: leading and trailing whitespace removed.\<close>

definition strip :: "str \<Rightarrow> str" where
  "strip s = rev (dropWhile isspace (rev (dropWhile isspace s)))"

text \<open>
  \<^verbatim>\<open>dataproperty.is_empty_string\<close>, of the library the module imports: for a string it
  is \<^verbatim>\<open>len(value.strip()) == 0\<close>, so a string of whitespace only counts as empty.
\<close>

definition is_empty_string :: "str \<Rightarrow> bool" where
  "is_empty_string v \<longleftrightarrow> length (strip v) = 0"

section \<open>Errors\<close>

text \<open>
  \<open>ValueError\<close> carries its message. \<open>TemplateError\<close> stands for the exception that
  \<^verbatim>\<open>re\<close> raises on a malformed replacement template (\<^verbatim>\<open>re.error\<close>, or \<^verbatim>\<open>IndexError\<close>
  for an unknown group name); its message is not modelled.
\<close>

datatype error = ValueError str | TemplateError

section \<open>The regular expressions of the module\<close>

text \<open>
  \<^verbatim>\<open>__INVALID_PATH_CHARS = '\:*?"<>|'\<close>: backslash, colon, asterisk, question mark,
  double quote, less-than, greater-than, vertical bar (\<^verbatim>\<open>\:\<close> is no escape sequence of
  Python, so the backslash stays).
\<close>

definition INVALID_PATH_CHARS :: str where
  "INVALID_PATH_CHARS =
     lit [CHR 0x5C, CHR '':'', CHR ''*'', CHR ''?'', CHR 0x22, CHR ''<'', CHR ''>'', CHR ''|'']"

text \<open>
  Both functions build the pattern \<^verbatim>\<open>"[%s]" % re.escape(chars)\<close>: a character class that
  matches one code point, namely any member of \<open>chars\<close>. \<open>in_class chars c\<close> is the
  match of that class at \<open>c\<close>.
\<close>

definition in_class :: "str \<Rightarrow> codepoint \<Rightarrow> bool" where
  "in_class chars c \<longleftrightarrow> c \<in> set chars"

text \<open>
  \<^verbatim>\<open>re.search(pattern, s)\<close> for such a class: the leftmost code point of \<open>s\<close> in the
  class, which is what \<^verbatim>\<open>match.group()\<close> holds, or \<^verbatim>\<open>None\<close>.
\<close>

definition re_search :: "str \<Rightarrow> str \<Rightarrow> codepoint option" where
  "re_search chars s = find (in_class chars) s"

text \<open>
  \<^verbatim>\<open>re.escape\<close> (Python 3.7 and later): a backslash is put before each of the characters
  \<^verbatim>\<open>()[]{}?*+-|^$\.&~#\<close>, space, tab, newline, carriage return, vertical tab and form
  feed; every other code point is kept as it is.
\<close>

definition special_chars :: str where
  "special_chars = lit ''()[]{}?*+-|^$'' @ [92] @ lit ''.&~# '' @ [9, 10, 13, 11, 12]"

definition re_escape :: "str \<Rightarrow> str" where
  "re_escape s = concat (map (\<lambda>c. if c \<in> set special_chars then [92, c] else [c]) s)"

subsection \<open>The replacement template of \<^verbatim>\<open>re.sub\<close>\<close>

text \<open>
  \<^verbatim>\<open>pattern.sub(repl, s)\<close> does not insert \<open>repl\<close> as it is: it reads \<open>repl\<close> as a
  template, in which a backslash starts an escape (\<^verbatim>\<open>re\<close> of Python 3.11, function
  \<^verbatim>\<open>parse_template\<close>). The template is parsed once, before the search, so a malformed
  template raises whether or not the pattern matches. The pattern here has no group of
  its own, so group 0, the whole match, is the only group a template can name.
\<close>

datatype piece = Literal codepoint | Group0

definition is_digit :: "codepoint \<Rightarrow> bool" where
  "is_digit c \<longleftrightarrow> 48 \<le> c \<and> c \<le> 57"

definition is_octdigit :: "codepoint \<Rightarrow> bool" where
  "is_octdigit c \<longleftrightarrow> 48 \<le> c \<and> c \<le> 55"

definition is_ascii_letter :: "codepoint \<Rightarrow> bool" where
  "is_ascii_letter c \<longleftrightarrow> (65 \<le> c \<and> c \<le> 90) \<or> (97 \<le> c \<and> c \<le> 122)"

text \<open>\<^verbatim>\<open>int(digits, base)\<close> on ASCII digits.\<close>

definition int_base :: "nat \<Rightarrow> str \<Rightarrow> nat" where
  "int_base b ds = foldl (\<lambda>n d. n * b + (d - 48)) 0 ds"

text \<open>The escapes of one letter: \<^verbatim>\<open>\a \b \f \n \r \t \v\<close> and the doubled backslash.\<close>

definition ESCAPES :: "(codepoint \<times> codepoint) list" where
  "ESCAPES = [(cp CHR ''a'', 7), (cp CHR ''b'', 8), (cp CHR ''f'', 12), (cp CHR ''n'', 10),
     (cp CHR ''r'', 13), (cp CHR ''t'', 9), (cp CHR ''v'', 11), (92, 92)]"

text \<open>
  A group of a template can be given by number, and the parser reads the number with
  \<^verbatim>\<open>int(name)\<close>. The pattern has group 0 only, so what matters is when \<^verbatim>\<open>int(name)\<close>
  returns 0: the name is, between optional whitespace, an optional sign and then digits
  of value zero, where one underscore may stand between two digits, and there are at most
  4300 digits (more raise in \<^verbatim>\<open>int\<close>). The whitespace of \<^verbatim>\<open>int\<close> is that of
  \<^verbatim>\<open>str.isspace\<close> without U+001C..U+001F; the digits of value zero are the decimal
  digits zero of all scripts.
\<close>

definition int_space :: "codepoint \<Rightarrow> bool" where
  "int_space c \<longleftrightarrow> isspace c \<and> c \<notin> set [28, 29, 30, 31]"

definition zero_digits :: str where
  "zero_digits = [48, 1632, 1776, 1984, 2406, 2534, 2662, 2790, 2918, 3046, 3174, 3302,
     3430, 3558, 3664, 3792, 3872, 4160, 4240, 6112, 6160, 6470, 6608, 6784, 6800, 6992,
     7088, 7232, 7248, 42528, 43216, 43264, 43472, 43504, 43600, 44016, 65296, 66720,
     68912, 69734, 69872, 69942, 70096, 70384, 70736, 70864, 71248, 71360, 71472, 71904,
     72016, 72784, 73040, 73120, 92768, 92864, 93008, 120782, 120792, 120802, 120812,
     120822, 123200, 123632, 125264, 130032]"

fun no_double_underscore :: "str \<Rightarrow> bool" where
  "no_double_underscore (a # b # r) \<longleftrightarrow>
     \<not> (a = cp CHR ''_'' \<and> b = cp CHR ''_'') \<and> no_double_underscore (b # r)"
| "no_double_underscore r \<longleftrightarrow> True"

definition int_is_zero :: "str \<Rightarrow> bool" where
  "int_is_zero name =
     (let t = dropWhile int_space name;
          u = (case t of
                 [] \<Rightarrow> t
               | c # r \<Rightarrow> if c = cp CHR ''+'' \<or> c = cp CHR ''-'' then r else t);
          body = rev (dropWhile int_space (rev u))
      in body \<noteq> [] \<and>
         list_all (\<lambda>c. c \<in> set zero_digits \<or> c = cp CHR ''_'') body \<and>
         hd body \<noteq> cp CHR ''_'' \<and> last body \<noteq> cp CHR ''_'' \<and>
         no_double_underscore body \<and>
         length (filter (\<lambda>c. c \<noteq> cp CHR ''_'') body) \<le> 4300)"

text \<open>
  An escape is read after its backslash and its first code point \<open>d\<close>, from the rest
  \<open>ds\<close> of the template: the result is the pieces the escape stands for and the number
  of code points of \<open>ds\<close> that belong to it.

  \<^verbatim>\<open>\g<name>\<close>, read after the \<^verbatim>\<open>g\<close>: the name must be there, between \<^verbatim>\<open><\<close> and
  \<^verbatim>\<open>>\<close>. A name that is an identifier is an unknown group name, since the pattern names
  no group; a name that \<^verbatim>\<open>int\<close> does not read has a bad character; a number above 0 is
  an invalid group reference. No identifier is read by \<^verbatim>\<open>int\<close>, so the names that do
  not raise are those that \<^verbatim>\<open>int\<close> reads as 0.
\<close>

definition parse_group :: "str \<Rightarrow> error + (piece list \<times> nat)" where
  "parse_group ds =
     (case ds of
        [] \<Rightarrow> Inl TemplateError
      | l # ns \<Rightarrow>
          if l \<noteq> cp CHR ''<'' then Inl TemplateError
          else if cp CHR ''>'' \<notin> set ns then Inl TemplateError
          else
            let name = takeWhile (\<lambda>x. x \<noteq> cp CHR ''>'') ns
            in if name = [] then Inl TemplateError
               else if \<not> int_is_zero name then Inl TemplateError
               else Inr ([Group0], length name + 2))"

text \<open>
  The escape that starts with the backslash and the code point \<open>d\<close>:
  \<^item> \<^verbatim>\<open>\g<...>\<close> is a group reference;
  \<^item> \<^verbatim>\<open>\0\<close> with up to two more octal digits is the character of that number;
  \<^item> another digit starts an octal escape when three octal digits follow each other
    (at most \<^verbatim>\<open>\377\<close>), and a reference to a group above 0, which is invalid, otherwise;
  \<^item> a known letter escape is its character; an unknown escape of an ASCII letter is an
    error; any other escape is left alone, backslash included.
\<close>

definition parse_escape :: "codepoint \<Rightarrow> str \<Rightarrow> error + (piece list \<times> nat)" where
  "parse_escape d ds =
     (if d = cp CHR ''g'' then parse_group ds
      else if d = cp CHR ''0'' then
        (let octs = takeWhile is_octdigit (take 2 ds)
         in Inr ([Literal (int_base 8 (d # octs) mod 256)], length octs))
      else if is_digit d then
        (case ds of
           e # f # fs \<Rightarrow>
             if is_octdigit d \<and> is_octdigit e \<and> is_octdigit f then
               (if int_base 8 [d, e, f] > 255 then Inl TemplateError
                else Inr ([Literal (int_base 8 [d, e, f])], 2))
             else Inl TemplateError
         | _ \<Rightarrow> Inl TemplateError)
      else
        (case map_of ESCAPES d of
           Some c \<Rightarrow> Inr ([Literal c], 0)
         | None \<Rightarrow>
             if is_ascii_letter d then Inl TemplateError
             else Inr ([Literal 92, Literal d], 0)))"

text \<open>
  The template as a list of pieces. A backslash at the very end is an error; a code point
  other than a backslash stands for itself.
\<close>

fun parse_template :: "str \<Rightarrow> error + piece list" where
  "parse_template [] = Inr []"
| "parse_template (c # cs) =
     (if c \<noteq> 92 then
        (case parse_template cs of
           Inl e \<Rightarrow> Inl e
         | Inr ps \<Rightarrow> Inr (Literal c # ps))
      else
        (case cs of
           [] \<Rightarrow> Inl TemplateError
         | d # ds \<Rightarrow>
             (case parse_escape d ds of
                Inl e \<Rightarrow> Inl e
              | Inr (ps, n) \<Rightarrow>
                  (case parse_template (drop n ds) of
                     Inl e \<Rightarrow> Inl e
                   | Inr qs \<Rightarrow> Inr (ps @ qs)))))"

text \<open>\<^verbatim>\<open>match.expand\<close>: a literal stands for itself, group 0 for the matched text.\<close>

definition expand_template :: "piece list \<Rightarrow> str \<Rightarrow> str" where
  "expand_template ps m = concat (map (\<lambda>p. case p of Literal c \<Rightarrow> [c] | Group0 \<Rightarrow> m) ps)"

text \<open>
  \<^verbatim>\<open>re.compile("[%s]" % re.escape(chars)).sub(repl, s)\<close>: every code point of \<open>s\<close> in
  the class is replaced by the expansion of the template at it, the others are kept.
\<close>

definition re_sub :: "str \<Rightarrow> str \<Rightarrow> str \<Rightarrow> error + str" where
  "re_sub chars repl s =
     (case parse_template repl of
        Inl e \<Rightarrow> Inl e
      | Inr tpl \<Rightarrow>
          Inr (concat (map (\<lambda>c. if in_class chars c then expand_template tpl [c] else [c]) s)))"


section \<open>validate_filename\<close>

text \<open>
  \<^verbatim>\<open>
  def validate_filename(filename):
      if dataproperty.is_empty_string(filename):
          raise ValueError("null path")
      match = re.search("[%s]" % (re.escape(__INVALID_PATH_CHARS)), filename)
      if match is not None:
          raise ValueError(
              "invalid char found in the file path: '%s'" % (re.escape(match.group())))
  \<close>
  The function returns nothing: success is \<open>Inr ()\<close>.
\<close>

definition null_path_error :: error where
  "null_path_error = ValueError (lit ''null path'')"

definition invalid_char_error :: "str \<Rightarrow> error" where
  "invalid_char_error m =
     ValueError (lit ''invalid char found in the file path: '' @ [39] @ re_escape m @ [39])"

definition validate_filename :: "str \<Rightarrow> error + unit" where
  "validate_filename filename =
     (if is_empty_string filename then Inl null_path_error
      else case re_search INVALID_PATH_CHARS filename of
             Some m \<Rightarrow> Inl (invalid_char_error [m])
           | None \<Rightarrow> Inr ())"

section \<open>sanitize_filename\<close>

text \<open>
  \<^verbatim>\<open>
  def sanitize_filename(filename, replacement_text=""):
      filename = filename.strip()
      re_replace = re.compile("[%s]" % re.escape(__INVALID_PATH_CHARS))
      return re_replace.sub(replacement_text, filename)
  \<close>
  The default \<open>replacement_text\<close> is the empty string \<open>[]\<close>.
\<close>

definition sanitize_filename :: "str \<Rightarrow> str \<Rightarrow> error + str" where
  "sanitize_filename filename replacement_text =
     re_sub INVALID_PATH_CHARS replacement_text (strip filename)"

section \<open>Vocabulary of the specification\<close>

text \<open>
  The ASCII control code points, 0x00 to 0x1F and 0x7F. The module has no such set; the
  predicate is here to state what the specification says about them.
\<close>

definition ascii_control :: "codepoint \<Rightarrow> bool" where
  "ascii_control c \<longleftrightarrow> c \<le> 31 \<or> c = 127"

section \<open>Evaluation and basic facts\<close>

lemmas literal_defs = lit_def cp_def INVALID_PATH_CHARS_def in_class_def

lemmas string_defs = strip_def isspace_def literal_defs

lemmas validate_defs =
  validate_filename_def is_empty_string_def re_search_def
  null_path_error_def invalid_char_error_def re_escape_def special_chars_def

lemmas sanitize_defs =
  sanitize_filename_def re_sub_def expand_template_def parse_escape_def parse_group_def
  int_is_zero_def int_space_def zero_digits_def
  ESCAPES_def is_digit_def is_octdigit_def is_ascii_letter_def int_base_def

lemma INVALID_PATH_CHARS_eight:
  "set INVALID_PATH_CHARS = {92, 58, 42, 63, 34, 60, 62, 124}"
  by (simp add: literal_defs)

lemma invalid_not_space: "in_class INVALID_PATH_CHARS c \<Longrightarrow> \<not> isspace c"
  by (auto simp: in_class_def INVALID_PATH_CHARS_eight isspace_def)

subsection \<open>Trimming\<close>

lemma set_strip: "set (strip s) \<subseteq> set s"
proof
  fix c assume "c \<in> set (strip s)"
  then have "c \<in> set (dropWhile isspace (rev (dropWhile isspace s)))"
    by (simp add: strip_def)
  then have "c \<in> set (dropWhile isspace s)"
    using set_dropWhileD by fastforce
  then show "c \<in> set s"
    by (rule set_dropWhileD)
qed

text \<open>A string is empty for \<open>is_empty_string\<close> when it is blank: whitespace only.\<close>

lemma is_empty_string_iff: "is_empty_string s \<longleftrightarrow> (\<forall>c\<in>set s. isspace c)"
proof
  assume "is_empty_string s"
  then have all: "\<forall>c\<in>set (dropWhile isspace s). isspace c"
    by (simp add: is_empty_string_def strip_def)
  have "dropWhile isspace s = []"
  proof (rule ccontr)
    assume ne: "dropWhile isspace s \<noteq> []"
    then have "\<not> isspace (hd (dropWhile isspace s))"
      by (rule hd_dropWhile)
    with ne all show False
      by simp
  qed
  then show "\<forall>c\<in>set s. isspace c"
    by simp
next
  assume "\<forall>c\<in>set s. isspace c"
  then have "dropWhile isspace s = []"
    by simp
  then have "strip s = []"
    by (simp only: strip_def rev.simps dropWhile.simps)
  then show "is_empty_string s"
    by (simp add: is_empty_string_def)
qed

subsection \<open>Searching the class\<close>

lemma re_search_None: "re_search chars s = None \<longleftrightarrow> (\<forall>c\<in>set s. \<not> in_class chars c)"
  by (auto simp: re_search_def find_None_iff)

lemma re_search_Some: "re_search chars s = Some c \<Longrightarrow> c \<in> set s \<and> in_class chars c"
  by (auto simp: re_search_def find_Some_iff)

lemma re_search_first:
  "\<forall>x\<in>set pre. \<not> in_class chars x \<Longrightarrow> in_class chars c \<Longrightarrow>
   re_search chars (pre @ c # post) = Some c"
  by (induction pre) (simp_all add: re_search_def)

subsection \<open>Templates without a backslash\<close>

lemma parse_template_literal: "92 \<notin> set r \<Longrightarrow> parse_template r = Inr (map Literal r)"
  by (induction r) simp_all

lemma expand_template_literal: "expand_template (map Literal r) m = r"
  by (induction r) (simp_all add: expand_template_def)

lemma re_sub_literal:
  "92 \<notin> set r \<Longrightarrow>
   re_sub chars r s = Inr (concat (map (\<lambda>c. if in_class chars c then r else [c]) s))"
  by (simp add: re_sub_def parse_template_literal expand_template_literal cong: if_cong)

lemma re_sub_delete: "re_sub chars [] s = Inr (filter (\<lambda>c. \<not> in_class chars c) s)"
proof -
  have "concat (map (\<lambda>c. if in_class chars c then [] else [c]) s) =
        filter (\<lambda>c. \<not> in_class chars c) s"
    by (induction s) simp_all
  then show ?thesis
    using re_sub_literal [of "[]" chars s] by simp
qed

lemma sanitize_filename_literal:
  "92 \<notin> set r \<Longrightarrow>
   sanitize_filename x r =
     Inr (concat (map (\<lambda>c. if c \<in> set INVALID_PATH_CHARS then r else [c]) (strip x)))"
  by (simp add: sanitize_filename_def re_sub_literal in_class_def)

lemma sanitize_filename_default:
  "sanitize_filename x [] = Inr (filter (\<lambda>c. \<not> in_class INVALID_PATH_CHARS c) (strip x))"
  by (simp add: sanitize_filename_def re_sub_delete)

subsection \<open>The outcomes of validate_filename\<close>

lemma null_path_not_invalid_char: "null_path_error \<noteq> invalid_char_error m"
  by (simp add: null_path_error_def invalid_char_error_def lit_def cp_def)

lemma validate_filename_ok_iff:
  "validate_filename s = Inr () \<longleftrightarrow>
   \<not> is_empty_string s \<and> (\<forall>c\<in>set s. \<not> in_class INVALID_PATH_CHARS c)"
  by (auto simp: validate_filename_def re_search_None dest: re_search_Some split: option.splits)

lemma validate_filename_replicate:
  "\<not> isspace c \<Longrightarrow> \<not> in_class INVALID_PATH_CHARS c \<Longrightarrow> 0 < n \<Longrightarrow>
   validate_filename (replicate n c) = Inr ()"
  by (auto simp: validate_filename_ok_iff is_empty_string_iff)

lemma validate_filename_invalid_char:
  assumes "\<forall>x\<in>set pre. \<not> in_class INVALID_PATH_CHARS x" and "in_class INVALID_PATH_CHARS c"
  shows "validate_filename (pre @ c # post) = Inl (invalid_char_error [c])"
proof -
  have "\<not> isspace c"
    using assms(2) by (rule invalid_not_space)
  then have "\<not> is_empty_string (pre @ c # post)"
    by (auto simp: is_empty_string_iff)
  moreover have "re_search INVALID_PATH_CHARS (pre @ c # post) = Some c"
    using assms by (rule re_search_first)
  ultimately show ?thesis
    by (simp add: validate_filename_def)
qed

lemma validate_filename_error_iff:
  "(\<exists>m. validate_filename s = Inl (invalid_char_error m)) \<longleftrightarrow>
   (\<exists>c\<in>set s. in_class INVALID_PATH_CHARS c)"
proof
  assume "\<exists>m. validate_filename s = Inl (invalid_char_error m)"
  then have "re_search INVALID_PATH_CHARS s \<noteq> None"
    by (auto simp: validate_filename_def null_path_not_invalid_char
             split: if_splits option.splits)
  then show "\<exists>c\<in>set s. in_class INVALID_PATH_CHARS c"
    by (simp add: re_search_None)
next
  assume "\<exists>c\<in>set s. in_class INVALID_PATH_CHARS c"
  then obtain c where c: "c \<in> set s" "in_class INVALID_PATH_CHARS c"
    by blast
  then have "\<not> is_empty_string s"
    using invalid_not_space by (auto simp: is_empty_string_iff)
  moreover from c obtain m where "re_search INVALID_PATH_CHARS s = Some m"
    using re_search_None [of INVALID_PATH_CHARS s] by fastforce
  ultimately show "\<exists>m. validate_filename s = Inl (invalid_char_error m)"
    by (auto simp: validate_filename_def)
qed

section \<open>The claims\<close>

subsection \<open>Sanitizing, then validating\<close>

text \<open>
  C1, as the code has it. With the default replacement text, \<open>sanitize_filename\<close>
  returns for every input, and \<open>validate_filename\<close> accepts what it returned whenever
  that is not blank, that is, not empty after trimming whitespace. A result that is
  merely non-empty is not enough.
\<close>

theorem sanitize_then_validate:
  "\<exists>y. sanitize_filename x [] = Inr y \<and>
       (\<not> is_empty_string y \<longrightarrow> validate_filename y = Inr ())"
  by (simp add: sanitize_filename_default validate_filename_ok_iff)

theorem sanitize_then_validate_witness:
  "sanitize_filename (lit '' a:b '') [] = Inr (lit ''ab'') \<and>
   \<not> is_empty_string (lit ''ab'') \<and> validate_filename (lit ''ab'') = Inr ()"
  using sanitize_then_validate [of "lit '' a:b ''"]
  by (simp add: sanitize_defs validate_defs string_defs)

text \<open>
  The input \<^verbatim>\<open>": :"\<close> is not empty after trimming, its sanitized result is the single
  space, which is not empty, and the validator rejects it as a null path.
\<close>

theorem sanitize_then_validate_counterexample:
  "strip (lit '': :'') \<noteq> [] \<and>
   sanitize_filename (lit '': :'') [] = Inr (lit '' '') \<and> lit '' '' \<noteq> [] \<and>
   validate_filename (lit '' '') = Inl (ValueError (lit ''null path''))"
  by (simp add: sanitize_defs validate_defs string_defs)

subsection \<open>Sanitizing twice\<close>

text \<open>
  C2, as the code has it. Sanitizing a sanitized name trims it and changes nothing else:
  \<open>sanitize_filename (sanitize_filename x)\<close> is \<open>sanitize_filename x\<close> with leading
  and trailing whitespace removed, so the two are equal whenever the first result neither
  starts nor ends with whitespace.
\<close>

theorem sanitize_twice:
  "\<exists>y. sanitize_filename x [] = Inr y \<and> sanitize_filename y [] = Inr (strip y) \<and>
       (strip y = y \<longrightarrow> sanitize_filename y [] = Inr y)"
proof -
  let ?y = "filter (\<lambda>c. \<not> in_class INVALID_PATH_CHARS c) (strip x)"
  have "\<forall>c\<in>set (strip ?y). \<not> in_class INVALID_PATH_CHARS c"
    using set_strip [of ?y] by auto
  then have "filter (\<lambda>c. \<not> in_class INVALID_PATH_CHARS c) (strip ?y) = strip ?y"
    by (rule filter_True)
  then show ?thesis
    by (simp add: sanitize_filename_default)
qed

theorem sanitize_twice_witness:
  "sanitize_filename (lit '' a:b '') [] = Inr (lit ''ab'') \<and> strip (lit ''ab'') = lit ''ab'' \<and>
   sanitize_filename (lit ''ab'') [] = Inr (lit ''ab'')"
  using sanitize_twice [of "lit '' a:b ''"]
  by (simp add: sanitize_defs string_defs)

text \<open>
  The input \<^verbatim>\<open>": a"\<close> is trimmed before the colon is removed, so the first result keeps
  the space that followed the colon, and the second pass trims it.
\<close>

theorem sanitize_twice_counterexample:
  "sanitize_filename (lit '': a'') [] = Inr (lit '' a'') \<and>
   sanitize_filename (lit '' a'') [] = Inr (lit ''a'') \<and> lit ''a'' \<noteq> lit '' a''"
  by (simp add: sanitize_defs string_defs)

subsection \<open>Control characters\<close>

text \<open>
  C3, as the code has it. \<open>validate_filename\<close> fails with the invalid-character error
  exactly when the name contains one of the eight characters of
  \<open>INVALID_PATH_CHARS\<close>. No ASCII control code point is among them, so a control
  character in a name never causes that error.
\<close>

theorem control_chars_not_forbidden:
  "((\<exists>m. validate_filename name = Inl (invalid_char_error m)) \<longleftrightarrow>
      (\<exists>c\<in>set name. c \<in> set INVALID_PATH_CHARS)) \<and>
   (\<forall>c. ascii_control c \<longrightarrow> c \<notin> set INVALID_PATH_CHARS)"
  using validate_filename_error_iff [of name]
  by (auto simp: in_class_def INVALID_PATH_CHARS_eight ascii_control_def)

theorem control_chars_not_forbidden_witness:
  "cp CHR '':'' \<in> set (lit ''a:b'') \<and> cp CHR '':'' \<in> set INVALID_PATH_CHARS \<and>
   validate_filename (lit ''a:b'') = Inl (invalid_char_error [cp CHR '':'']) \<and>
   ascii_control 127 \<and> 127 \<notin> set INVALID_PATH_CHARS"
  using control_chars_not_forbidden [of "lit ''a:b''"]
  by (simp add: validate_defs string_defs ascii_control_def)

text \<open>
  The names \<^verbatim>\<open>"a\x01b"\<close> and \<^verbatim>\<open>"\x7f"\<close> contain a control code point and are accepted.
\<close>

theorem control_chars_counterexample:
  "ascii_control 1 \<and> 1 \<in> set (lit ''a'' @ [1] @ lit ''b'') \<and>
   validate_filename (lit ''a'' @ [1] @ lit ''b'') = Inr () \<and>
   ascii_control 127 \<and> validate_filename [127] = Inr ()"
  by (simp add: validate_defs string_defs ascii_control_def)

subsection \<open>Length\<close>

text \<open>
  C4, as the code has it. \<open>validate_filename\<close> takes no length bound and has none of
  its own: whatever bound \<open>max_len\<close> one has in mind, every name of \<open>max_len\<close> or of
  \<open>max_len + 1\<close> code points passes when its content is legal, that is, when it is not
  blank and has none of the characters of \<open>INVALID_PATH_CHARS\<close>.
\<close>

theorem no_length_bound:
  assumes "length name = max_len \<or> length name = max_len + 1"
    and "\<not> is_empty_string name"
    and "\<forall>c\<in>set name. c \<notin> set INVALID_PATH_CHARS"
  shows "validate_filename name = Inr ()"
  using assms(2,3) by (simp add: validate_filename_ok_iff in_class_def)

theorem no_length_bound_witness:
  "length (replicate 255 (cp CHR ''a'')) = 255 \<and>
   validate_filename (replicate 255 (cp CHR ''a'')) = Inr () \<and>
   length (cp CHR ''b'' # replicate 255 (cp CHR ''a'')) = 255 + 1 \<and>
   validate_filename (cp CHR ''b'' # replicate 255 (cp CHR ''a'')) = Inr ()"
proof -
  let ?s = "replicate 255 (cp CHR ''a'')" and ?t = "cp CHR ''b'' # replicate 255 (cp CHR ''a'')"
  have len: "length ?s = 255 \<or> length ?s = 255 + 1" "length ?t = 255 \<or> length ?t = 255 + 1"
    by simp_all
  have nonblank: "\<not> is_empty_string ?s" "\<not> is_empty_string ?t"
    by (simp_all add: is_empty_string_iff isspace_def cp_def)
  have legal: "\<forall>c\<in>set ?s. c \<notin> set INVALID_PATH_CHARS" "\<forall>c\<in>set ?t. c \<notin> set INVALID_PATH_CHARS"
    by (simp_all add: literal_defs)
  show ?thesis
    using no_length_bound [OF len(1) nonblank(1) legal(1)]
      no_length_bound [OF len(2) nonblank(2) legal(2)]
    by simp
qed

text \<open>With the bound 255 of the specification: 256 times \<^verbatim>\<open>a\<close> is accepted.\<close>

theorem length_boundary_counterexample:
  "length (replicate 256 (cp CHR ''a'')) = 255 + 1 \<and>
   validate_filename (replicate 256 (cp CHR ''a'')) = Inr ()"
proof -
  have "validate_filename (replicate 256 (cp CHR ''a'')) = Inr ()"
    by (rule validate_filename_replicate) (simp_all add: isspace_def literal_defs)
  then show ?thesis
    by simp
qed

subsection \<open>Reserved names\<close>

text \<open>
  C5, as the code has it. The module knows no reserved names and no platform: the names
  \<^verbatim>\<open>con\<close>, \<^verbatim>\<open>CON\<close> and \<^verbatim>\<open>Con.txt\<close> are accepted by \<open>validate_filename\<close>, and
  \<open>sanitize_filename\<close> returns each of them as it is, without a suffix.
\<close>

theorem reserved_names_not_special:
  "validate_filename (lit ''con'') = Inr () \<and>
   validate_filename (lit ''CON'') = Inr () \<and>
   validate_filename (lit ''Con.txt'') = Inr () \<and>
   sanitize_filename (lit ''con'') [] = Inr (lit ''con'') \<and>
   sanitize_filename (lit ''CON'') [] = Inr (lit ''CON'') \<and>
   sanitize_filename (lit ''Con.txt'') [] = Inr (lit ''Con.txt'')"
  by (simp add: sanitize_defs validate_defs string_defs)

theorem reserved_names_counterexample:
  "validate_filename (lit ''CON'') = Inr () \<and>
   sanitize_filename (lit ''con'') [] \<noteq> Inr (lit ''con_'')"
  by (simp add: sanitize_defs validate_defs string_defs)

subsection \<open>What the invalid-character error reports\<close>

text \<open>
  C6, as the code has it. When \<open>validate_filename\<close> rejects a name for an invalid
  character, the message of the error names one character: the leftmost invalid character
  of the name, as \<^verbatim>\<open>re.escape\<close> writes it. Invalid characters further to the right are
  not reported.
\<close>

theorem first_invalid_char_reported:
  assumes "\<forall>x\<in>set pre. x \<notin> set INVALID_PATH_CHARS" and "c \<in> set INVALID_PATH_CHARS"
  shows "validate_filename (pre @ c # post) =
         Inl (ValueError
           (lit ''invalid char found in the file path: '' @ [39] @ re_escape [c] @ [39]))"
  using validate_filename_invalid_char [of pre c post] assms
  by (simp add: in_class_def invalid_char_error_def)

theorem first_invalid_char_reported_witness:
  "validate_filename (lit ''a'' @ cp CHR '':'' # lit ''b*'') =
   Inl (ValueError (lit ''invalid char found in the file path: '' @ [39] @ lit '':'' @ [39]))"
proof -
  have "\<forall>x\<in>set (lit ''a''). x \<notin> set INVALID_PATH_CHARS"
    and "cp CHR '':'' \<in> set INVALID_PATH_CHARS"
    by (simp_all add: literal_defs)
  then show ?thesis
    using first_invalid_char_reported [of "lit ''a''" "cp CHR '':''" "lit ''b*''"]
    by (simp add: re_escape_def special_chars_def lit_def cp_def)
qed

text \<open>
  The name \<^verbatim>\<open>a:b*\<close> has two invalid characters; the message names the colon, and the
  asterisk occurs nowhere in it.
\<close>

theorem offending_chars_counterexample:
  "validate_filename (lit ''a:b*'') =
     Inl (ValueError (lit ''invalid char found in the file path: '' @ [39] @ lit '':'' @ [39])) \<and>
   cp CHR ''*'' \<in> set (lit ''a:b*'') \<and> cp CHR ''*'' \<in> set INVALID_PATH_CHARS \<and>
   cp CHR ''*'' \<notin> set (lit ''invalid char found in the file path: '' @ [39] @ lit '':'' @ [39])"
  by (simp add: validate_defs string_defs)

subsection \<open>The empty name\<close>

text \<open>
  C7. Empty-name rejection: \<open>validate_filename\<close> applied to the empty string fails
  with the null-name error, which this module raises as \<^verbatim>\<open>ValueError("null path")\<close>,
  and so with no other error.
\<close>

theorem validate_filename_empty:
  "validate_filename [] = Inl (ValueError (lit ''null path''))"
  by (simp add: validate_filename_def is_empty_string_def strip_def null_path_error_def)

subsection \<open>Replacement\<close>

text \<open>
  C8. Character replacement: \<^verbatim>\<open>sanitize_filename("A:B", replacement_text="-")\<close> returns
  \<^verbatim>\<open>"A-B"\<close>, and every invalid character of the input is to be replaced by the
  replacement text, as the docstring of the function says too. The code hands the
  replacement text to \<^verbatim>\<open>re.sub\<close> as a template, and so misses this for a replacement
  text with a backslash: with the text of two backslashes the colon of \<^verbatim>\<open>A:B\<close> becomes
  one backslash, not the two of the text, and with the text of one backslash the call
  raises.
\<close>

theorem replacement_text_read_as_template:
  "sanitize_filename (lit ''A:B'') (lit ''-'') = Inr (lit ''A-B'') \<and>
   sanitize_filename (lit ''A:B'') [92, 92] = Inr (lit ''A'' @ [92] @ lit ''B'') \<and>
   lit ''A'' @ [92] @ lit ''B'' \<noteq> lit ''A'' @ [92, 92] @ lit ''B'' \<and>
   sanitize_filename (lit ''A:B'') [92] = Inl TemplateError"
  by (simp add: sanitize_defs string_defs)

subsection \<open>When validate_filename raises\<close>

text \<open>
  C9. \<open>validate_filename\<close> raises if and only if the name is empty or blank, or
  contains one of the eight characters backslash, colon, asterisk, question mark, double
  quote, less-than, greater-than, vertical bar; every other name is accepted, among them
  a name of 256 code points, the device name \<^verbatim>\<open>CON\<close>, a name with a forward slash and a
  name with a control character.
\<close>

theorem validate_filename_raises_iff:
  "(if (\<forall>c\<in>set name. isspace c) \<or>
       (\<exists>c\<in>set name. c \<in> {cp (CHR 0x5C), cp CHR '':'', cp CHR ''*'', cp CHR ''?'',
                              cp (CHR 0x22), cp CHR ''<'', cp CHR ''>'', cp CHR ''|''})
    then \<exists>e. validate_filename name = Inl e
    else validate_filename name = Inr ()) \<and>
   validate_filename (replicate 256 (cp CHR ''a'')) = Inr () \<and>
   validate_filename (lit ''CON'') = Inr () \<and>
   validate_filename (lit ''a/b'') = Inr () \<and>
   validate_filename (lit ''a'' @ [1] @ lit ''b'') = Inr ()"
proof -
  have eight: "{cp (CHR 0x5C), cp CHR '':'', cp CHR ''*'', cp CHR ''?'',
      cp (CHR 0x22), cp CHR ''<'', cp CHR ''>'', cp CHR ''|''} = set INVALID_PATH_CHARS"
    by (simp add: literal_defs)
  have ok: "validate_filename name = Inr () \<longleftrightarrow>
      \<not> ((\<forall>c\<in>set name. isspace c) \<or> (\<exists>c\<in>set name. c \<in> set INVALID_PATH_CHARS))"
    by (simp add: validate_filename_ok_iff is_empty_string_iff in_class_def)
  have cases: "(\<exists>e. validate_filename name = Inl e) \<longleftrightarrow> validate_filename name \<noteq> Inr ()"
    by (cases "validate_filename name") simp_all
  have long: "validate_filename (replicate 256 (cp CHR ''a'')) = Inr ()"
    by (rule validate_filename_replicate) (simp_all add: isspace_def literal_defs)
  have examples: "validate_filename (lit ''CON'') = Inr ()"
    "validate_filename (lit ''a/b'') = Inr ()"
    "validate_filename (lit ''a'' @ [1] @ lit ''b'') = Inr ()"
    by (simp_all add: validate_defs string_defs)
  show ?thesis
    unfolding eight using ok cases long examples by auto
qed

theorem validate_filename_raises_iff_witness:
  "validate_filename (lit ''a?b'') = Inl (invalid_char_error [cp CHR ''?'']) \<and>
   validate_filename (lit ''  '') = Inl null_path_error \<and>
   validate_filename (lit ''a b'') = Inr ()"
  using validate_filename_raises_iff [of "lit ''a?b''"]
    validate_filename_raises_iff [of "lit ''  ''"]
    validate_filename_raises_iff [of "lit ''a b''"]
  by (simp add: validate_defs string_defs)

subsection \<open>What sanitize_filename returns\<close>

text \<open>
  C10. For every input and every replacement text that contains none of the eight invalid
  characters, \<open>sanitize_filename\<close> returns a string, and that string contains none of
  the eight characters.
\<close>

theorem sanitize_filename_no_invalid_chars:
  assumes "set replacement_text \<inter> set INVALID_PATH_CHARS = {}"
  shows "\<exists>y. sanitize_filename filename replacement_text = Inr y \<and>
             set y \<inter> set INVALID_PATH_CHARS = {}"
proof -
  have "92 \<in> set INVALID_PATH_CHARS"
    by (simp add: INVALID_PATH_CHARS_eight)
  with assms have "92 \<notin> set replacement_text"
    by blast
  then have "sanitize_filename filename replacement_text =
      Inr (concat (map (\<lambda>c. if c \<in> set INVALID_PATH_CHARS then replacement_text else [c])
                       (strip filename)))"
    by (rule sanitize_filename_literal)
  moreover have "set (concat (map (\<lambda>c. if c \<in> set INVALID_PATH_CHARS then replacement_text
      else [c]) s)) \<inter> set INVALID_PATH_CHARS = {}" for s
    using assms by (induction s) auto
  ultimately show ?thesis
    by simp
qed

theorem sanitize_filename_no_invalid_chars_witness:
  "set (lit ''-'') \<inter> set INVALID_PATH_CHARS = {} \<and>
   sanitize_filename (lit ''A:B'') (lit ''-'') = Inr (lit ''A-B'') \<and>
   set (lit ''A-B'') \<inter> set INVALID_PATH_CHARS = {}"
proof -
  have h: "set (lit ''-'') \<inter> set INVALID_PATH_CHARS = {}"
    by (simp add: literal_defs)
  have "sanitize_filename (lit ''A:B'') (lit ''-'') = Inr (lit ''A-B'')"
    by (simp add: sanitize_defs string_defs)
  with h sanitize_filename_no_invalid_chars [OF h, of "lit ''A:B''"] show ?thesis
    by simp
qed

end
